theory Spec2Isabelle
  imports Main
begin

section \<open>JavaScript values, exceptions and completions\<close>

text \<open>
  The two scripts (\<^verbatim>\<open>static/js/ui-config.js\<close> and the admin panel script) are embedded
  as state transformers on a page: the document's elements, the session storage, and a
  trace of the effects a call performs, in the order the source performs them. Every
  \<^verbatim>\<open>await\<close> is run to completion in place: one call is modelled from its entry to
  its exit, without interleaving with other calls.

  A thrown value is an \<open>exn\<close>; a statement finishes with a completion, as in the
  language definition: normally, by \<^verbatim>\<open>return\<close>, or by throwing.
\<close>

datatype exn =
    SecurityError
  | QuotaExceededError
  | SyntaxError
  | TypeError string
  | NetworkError string
  | Error string

fun exn_message :: "exn \<Rightarrow> string" where
  "exn_message SecurityError = ''The operation is insecure.''"
| "exn_message QuotaExceededError = ''The quota has been exceeded.''"
| "exn_message SyntaxError = ''Unexpected token in JSON''"
| "exn_message (TypeError m) = m"
| "exn_message (NetworkError m) = m"
| "exn_message (Error m) = m"

datatype completion = Normal | Returned | Threw exn

text \<open>
  A snapshot is the object \<^verbatim>\<open>res.json()\<close> or \<^verbatim>\<open>JSON.parse\<close> builds: own properties
  from keys to strings or \<^verbatim>\<open>null\<close>. Reading \<^verbatim>\<open>config[key]\<close> follows the prototype
  chain: a key that is not an own property but names a member of \<^verbatim>\<open>Object.prototype\<close>
  reads that member, any other key reads \<^verbatim>\<open>undefined\<close>.
\<close>

datatype json = JNull | JString string

type_synonym config = "string \<rightharpoonup> json"

datatype jsval = Undefined | Own json | Inherited string

definition Object_prototype_names :: "string list" where
  "Object_prototype_names =
     [''constructor'', ''__defineGetter__'', ''__defineSetter__'', ''hasOwnProperty'',
      ''__lookupGetter__'', ''__lookupSetter__'', ''isPrototypeOf'',
      ''propertyIsEnumerable'', ''toString'', ''valueOf'', ''__proto__'',
      ''toLocaleString'']"

definition js_get :: "config \<Rightarrow> string \<Rightarrow> jsval" where
  "js_get config key =
     (case config key of
        Some v \<Rightarrow> Own v
      | None \<Rightarrow> if key \<in> set Object_prototype_names then Inherited key else Undefined)"

text \<open>
  The string a value becomes when it is assigned to a DOM property. The members of
  \<^verbatim>\<open>Object.prototype\<close> are native functions, but for \<^verbatim>\<open>__proto__\<close>, which reads the
  prototype object itself, and \<^verbatim>\<open>constructor\<close>, which is the function \<^verbatim>\<open>Object\<close>.
\<close>

fun ToString :: "jsval \<Rightarrow> string" where
  "ToString Undefined = ''undefined''"
| "ToString (Own JNull) = ''null''"
| "ToString (Own (JString s)) = s"
| "ToString (Inherited name) =
     (if name = ''__proto__'' then ''[object Object]''
      else if name = ''constructor'' then ''function Object() { [native code] }''
      else ''function '' @ name @ ''() { [native code] }'')"

section \<open>The page: elements, session storage, effects\<close>

text \<open>
  An element's rendered content is either literal text (set through \<^verbatim>\<open>textContent\<close>)
  or a string interpreted as markup (set through \<^verbatim>\<open>innerHTML\<close>). The document is the
  list of its elements in document order; the elements bound to keys are taken not to be
  nested in one another.
\<close>

datatype content = Text string | Markup string

record element =
  tagName :: string
  elem_id :: "string option"
  input_type :: string
  ui_key :: "string option"
  ui_target :: "string option"
  src :: "string option"
  loading :: "string option"
  placeholder :: "string option"
  content :: content
  val :: "string option"

text \<open>
  What session storage holds under a key is a string; the model keeps what the loader
  makes of it: the empty string (falsy), a string \<^verbatim>\<open>JSON.parse\<close> or the destructuring
  rejects, or the text of a cache record \<^verbatim>\<open>{ts, data}\<close>. Storage that is disabled
  throws on every access; storage that is full throws on \<^verbatim>\<open>setItem\<close>.
\<close>

datatype stored = EmptyString | Unparsable | CacheRecord int config

datatype storage = Disabled | Enabled bool "string \<rightharpoonup> stored"

fun getItem :: "string \<Rightarrow> storage \<Rightarrow> exn + stored option" where
  "getItem key Disabled = Inl SecurityError"
| "getItem key (Enabled full items) = Inr (items key)"

fun setItem :: "string \<Rightarrow> stored \<Rightarrow> storage \<Rightarrow> exn + storage" where
  "setItem key v Disabled = Inl SecurityError"
| "setItem key v (Enabled full items) =
     (if full then Inl QuotaExceededError else Inr (Enabled full (items(key \<mapsto> v))))"

fun removeItem :: "string \<Rightarrow> storage \<Rightarrow> exn + storage" where
  "removeItem key Disabled = Inl SecurityError"
| "removeItem key (Enabled full items) = Inr (Enabled full (items(key := None)))"

definition JSON_stringify :: "int \<Rightarrow> config \<Rightarrow> stored" where
  "JSON_stringify ts data = CacheRecord ts data"

fun JSON_parse :: "stored \<Rightarrow> exn + int \<times> config" where
  "JSON_parse EmptyString = Inl SyntaxError"
| "JSON_parse Unparsable = Inl SyntaxError"
| "JSON_parse (CacheRecord ts data) = Inr (ts, data)"

text \<open>The body of a request of the admin panel, and the effects a call leaves behind.\<close>

datatype body =
    ValueBody "string option"
  | UpdatesBody "(string \<times> string option) list"

datatype effect =
    StorageGet string
  | StorageSet string stored
  | StorageRemove string
  | Fetch string
  | Request string string "body option" "string option"
  | Apply config
  | Dispatch string config
  | Toast string bool
  | Warn string

record page =
  document :: "element list"
  sessionStorage :: storage
  uiConfig :: "config option"
  csrfToken :: "string option"
  trace :: "effect list"

definition emit :: "effect \<Rightarrow> page \<Rightarrow> page" where
  "emit e p = p\<lparr>trace := trace p @ [e]\<rparr>"

text \<open>Sequencing and \<^verbatim>\<open>try { ... } catch (e) { ... }\<close> on statements.\<close>

type_synonym stmt = "page \<Rightarrow> completion \<times> page"

definition js_seq :: "stmt \<Rightarrow> stmt \<Rightarrow> stmt" where
  "js_seq s1 s2 p = (case s1 p of (Normal, p1) \<Rightarrow> s2 p1 | r \<Rightarrow> r)"

definition try_catch :: "stmt \<Rightarrow> (exn \<Rightarrow> stmt) \<Rightarrow> stmt" where
  "try_catch block handler p = (case block p of (Threw e, p1) \<Rightarrow> handler e p1 | r \<Rightarrow> r)"

text \<open>
  A response of the server: the request fails in the network, or a response arrives with
  its \<^verbatim>\<open>ok\<close> flag and a body, \<open>None\<close> when \<^verbatim>\<open>res.json()\<close> rejects it.
\<close>

datatype 'a http = NetworkFailure string | Response bool "'a option"

section \<open>ui-config.js\<close>

definition CACHE_KEY :: string where
  "CACHE_KEY = ''em_ui_config''"

definition CACHE_TTL :: int where
  "CACHE_TTL = 60 * 1000"

text \<open>
  The body of the \<^verbatim>\<open>forEach\<close> of \<^verbatim>\<open>applyConfig\<close>, on one element of the document.
  A snapshot is an object, so no step of \<^verbatim>\<open>applyConfig\<close> throws.
\<close>

definition apply_element :: "config \<Rightarrow> element \<Rightarrow> element" where
  "apply_element config el =
     (case ui_key el of
        None \<Rightarrow> el
      | Some key \<Rightarrow>
          (let v = js_get config key in
           if v = Undefined \<or> v = Own JNull then el
           else if tagName el = ''IMG'' then
             el\<lparr>src := Some (ToString v), loading := Some ''lazy''\<rparr>
           else if tagName el = ''INPUT'' \<and> input_type el \<noteq> ''submit'' then
             el\<lparr>placeholder := Some (ToString v)\<rparr>
           else if ui_target el = Some ''html'' then
             el\<lparr>content := Markup (ToString v)\<rparr>
           else
             el\<lparr>content := Text (ToString v)\<rparr>))"

definition applyConfig :: "config \<Rightarrow> page \<Rightarrow> page" where
  "applyConfig config p =
     (let p1 = emit (Apply config) p;
          p2 = p1\<lparr>document := map (apply_element config) (document p1)\<rparr>;
          p3 = emit (Dispatch ''uiConfigLoaded'' config) p2
      in p3\<lparr>uiConfig := Some config\<rparr>)"

text \<open>
  \<^verbatim>\<open>loadUIConfig\<close>: the first \<^verbatim>\<open>try\<close> block (the cache), the second (the fetch), and
  the function. \<open>now\<close> is what \<^verbatim>\<open>Date.now()\<close> reads at the freshness test, \<open>now'\<close>
  what it reads when the record is written, \<open>resp\<close> what the server answers.
\<close>

definition cache_block :: "int \<Rightarrow> stmt" where
  "cache_block now p =
     (let p1 = emit (StorageGet CACHE_KEY) p in
      case getItem CACHE_KEY (sessionStorage p1) of
        Inl e \<Rightarrow> (Threw e, p1)
      | Inr None \<Rightarrow> (Normal, p1)
      | Inr (Some EmptyString) \<Rightarrow> (Normal, p1)
      | Inr (Some cached) \<Rightarrow>
          (case JSON_parse cached of
             Inl e \<Rightarrow> (Threw e, p1)
           | Inr (ts, data) \<Rightarrow>
               if now - ts < CACHE_TTL then (Returned, applyConfig data p1)
               else (Normal, p1)))"

definition cache_put :: "int \<Rightarrow> config \<Rightarrow> stmt" where
  "cache_put now' config p =
     (let item = JSON_stringify now' config;
          p1 = emit (StorageSet CACHE_KEY item) p in
      case setItem CACHE_KEY item (sessionStorage p1) of
        Inl e \<Rightarrow> (Threw e, p1)
      | Inr st \<Rightarrow> (Normal, p1\<lparr>sessionStorage := st\<rparr>))"

definition fetch_block :: "int \<Rightarrow> config http \<Rightarrow> stmt" where
  "fetch_block now' resp p =
     (let p1 = emit (Fetch ''/api/ui-config'') p in
      case resp of
        NetworkFailure m \<Rightarrow> (Threw (NetworkError m), p1)
      | Response ok b \<Rightarrow>
          if \<not> ok then (Returned, p1)
          else (case b of
                  None \<Rightarrow> (Threw SyntaxError, p1)
                | Some config \<Rightarrow>
                    js_seq (try_catch (cache_put now' config) (\<lambda>e q. (Normal, q)))
                           (\<lambda>q. (Normal, applyConfig config q)) p1))"

definition cache_stmt :: "int \<Rightarrow> stmt" where
  "cache_stmt now = try_catch (cache_block now) (\<lambda>e q. (Normal, q))"

definition fetch_stmt :: "int \<Rightarrow> config http \<Rightarrow> stmt" where
  "fetch_stmt now' resp =
     try_catch (fetch_block now' resp)
       (\<lambda>e q. (Normal,
          emit (Warn (''[UI Config] Could not load dynamic config: '' @ exn_message e)) q))"

definition loadUIConfig :: "int \<Rightarrow> int \<Rightarrow> config http \<Rightarrow> stmt" where
  "loadUIConfig now now' resp = js_seq (cache_stmt now) (fetch_stmt now' resp)"

section \<open>The admin panel script\<close>

record asset =
  asset_key :: string
  asset_section :: string
  asset_label :: string
  asset_description :: "string option"
  asset_type :: string
  asset_value :: "string option"

record api_data =
  message :: "string option"
  assets :: "asset list option"

text \<open>
  \<^verbatim>\<open>adminApi.request\<close>: a request that has a body is sent with the CSRF token, when
  the page holds one that is truthy; a network failure, a response whose body is not
  JSON and a response that is not \<^verbatim>\<open>ok\<close> throw.
\<close>

definition csrf_of :: "page \<Rightarrow> string option" where
  "csrf_of p = (case csrfToken p of None \<Rightarrow> None | Some t \<Rightarrow> if t = [] then None else Some t)"

definition adminApi_request ::
  "string \<Rightarrow> string \<Rightarrow> body option \<Rightarrow> api_data http \<Rightarrow> page \<Rightarrow> (exn + api_data) \<times> page" where
  "adminApi_request method url b resp p =
     (let p1 = emit (Request method url b (case b of None \<Rightarrow> None | Some x \<Rightarrow> csrf_of p)) p in
      case resp of
        NetworkFailure m \<Rightarrow> (Inl (NetworkError m), p1)
      | Response ok None \<Rightarrow> (Inl SyntaxError, p1)
      | Response ok (Some data) \<Rightarrow>
          if \<not> ok then
            (Inl (Error (case message data of
                           None \<Rightarrow> ''Request failed''
                         | Some m \<Rightarrow> if m = [] then ''Request failed'' else m)), p1)
          else (Inr data, p1))"

definition adminApi_get :: "string \<Rightarrow> api_data http \<Rightarrow> page \<Rightarrow> (exn + api_data) \<times> page" where
  "adminApi_get url = adminApi_request ''GET'' url None"

definition adminApi_put ::
  "string \<Rightarrow> body \<Rightarrow> api_data http \<Rightarrow> page \<Rightarrow> (exn + api_data) \<times> page" where
  "adminApi_put url b = adminApi_request ''PUT'' url (Some b)"

definition showAdminToast :: "string \<Rightarrow> bool \<Rightarrow> page \<Rightarrow> page" where
  "showAdminToast msg isError p = emit (Toast msg isError) p"

definition sessionStorage_removeItem :: "string \<Rightarrow> stmt" where
  "sessionStorage_removeItem key p =
     (let p1 = emit (StorageRemove key) p in
      case removeItem key (sessionStorage p1) of
        Inl e \<Rightarrow> (Threw e, p1)
      | Inr st \<Rightarrow> (Normal, p1\<lparr>sessionStorage := st\<rparr>))"

definition refreshUIConfig :: "int \<Rightarrow> int \<Rightarrow> config http \<Rightarrow> stmt" where
  "refreshUIConfig now now' resp =
     js_seq (sessionStorage_removeItem CACHE_KEY) (loadUIConfig now now' resp)"

subsection \<open>Grouping the assets by section\<close>

text \<open>
  \<^verbatim>\<open>grouped\<close> is a plain object: its own properties in the order they were created.
  \<^verbatim>\<open>grouped[a.section]\<close> reads through the prototype chain, so it is truthy for an own
  property (an array) and for a member of \<^verbatim>\<open>Object.prototype\<close>, which has no
  \<^verbatim>\<open>push\<close>.
\<close>

type_synonym grouped = "(string \<times> asset list) list"

definition push_asset :: "string \<Rightarrow> asset \<Rightarrow> grouped \<Rightarrow> grouped" where
  "push_asset s a obj = map (\<lambda>(k, arr). if k = s then (k, arr @ [a]) else (k, arr)) obj"

definition group_step :: "asset \<Rightarrow> grouped \<Rightarrow> exn + grouped" where
  "group_step a obj =
     (let s = asset_section a;
          obj1 = (if map_of obj s = None \<and> s \<notin> set Object_prototype_names
                  then obj @ [(s, [])] else obj)
      in case map_of obj1 s of
           Some arr \<Rightarrow> Inr (push_asset s a obj1)
         | None \<Rightarrow> Inl (TypeError ''grouped[a.section].push is not a function''))"

fun group_assets :: "asset list \<Rightarrow> grouped \<Rightarrow> exn + grouped" where
  "group_assets [] obj = Inr obj"
| "group_assets (a # as) obj =
     (case group_step a obj of Inl e \<Rightarrow> Inl e | Inr obj1 \<Rightarrow> group_assets as obj1)"

text \<open>
  \<^verbatim>\<open>Object.entries\<close> visits the own keys in the order of the language definition: the
  keys that are array indices (canonical decimal numerals below \<open>2\<^sup>3\<^sup>2 - 1\<close>) first, in
  ascending numeric order, then the other keys in the order of their creation.
\<close>

definition is_digit :: "char \<Rightarrow> bool" where
  "is_digit c = (c \<in> set ''0123456789'')"

definition digit_value :: "char \<Rightarrow> nat" where
  "digit_value c = of_char c - 48"

definition decimal_value :: "string \<Rightarrow> nat" where
  "decimal_value s = foldl (\<lambda>n c. 10 * n + digit_value c) 0 s"

definition is_array_index :: "string \<Rightarrow> bool" where
  "is_array_index s =
     (s \<noteq> [] \<and> list_all is_digit s \<and> (s = ''0'' \<or> hd s \<noteq> CHR ''0'') \<and>
      decimal_value s < 2 ^ 32 - 1)"

definition OwnPropertyKeys :: "grouped \<Rightarrow> string list" where
  "OwnPropertyKeys obj =
     (let ks = map fst obj in
      sort_key decimal_value (filter is_array_index ks) @
      filter (\<lambda>k. \<not> is_array_index k) ks)"

definition Object_entries :: "grouped \<Rightarrow> (string \<times> asset list) list" where
  "Object_entries obj =
     concat (map (\<lambda>k. case map_of obj k of None \<Rightarrow> [] | Some arr \<Rightarrow> [(k, arr)])
                 (OwnPropertyKeys obj))"

text \<open>
  \<^verbatim>\<open>loadAdminUIAssets\<close>, from the request to the loop over the sections: the result is
  the sequence of sections the loop visits, each with its assets, or what the
  \<^verbatim>\<open>try\<close> block throws. The markup the loop builds is kept as the elements it gives
  an id, \<open>editor_elements\<close>: for every asset a row, for an image asset a preview, and the
  input that holds the value.
\<close>

definition loadAdminUIAssets_sections ::
  "api_data http \<Rightarrow> page \<Rightarrow> (exn + (string \<times> asset list) list) \<times> page" where
  "loadAdminUIAssets_sections resp p =
     (case adminApi_get ''/admin/ui-assets'' resp p of
        (Inl e, p1) \<Rightarrow> (Inl e, p1)
      | (Inr data, p1) \<Rightarrow>
          (case assets data of
             None \<Rightarrow> (Inl (TypeError ''data.assets is undefined''), p1)
           | Some as \<Rightarrow>
               (case group_assets as [] of
                  Inl e \<Rightarrow> (Inl e, p1)
                | Inr obj \<Rightarrow> (Inr (Object_entries obj), p1))))"

definition blank_element :: element where
  "blank_element =
     \<lparr>tagName = ''DIV'', elem_id = None, input_type = [], ui_key = None, ui_target = None,
      src = None, loading = None, placeholder = None, content = Text [], val = None\<rparr>"

definition value_or_empty :: "string option \<Rightarrow> string" where
  "value_or_empty v = (case v of None \<Rightarrow> [] | Some s \<Rightarrow> s)"

definition asset_elements :: "asset \<Rightarrow> element list" where
  "asset_elements a =
     [blank_element\<lparr>elem_id := Some (''uia-row-'' @ asset_key a)\<rparr>] @
     (if asset_type a = ''image'' then
        [blank_element\<lparr>tagName := ''IMG'', elem_id := Some (''uia-preview-'' @ asset_key a),
                        src := Some (value_or_empty (asset_value a))\<rparr>,
         blank_element\<lparr>tagName := ''INPUT'', input_type := ''text'',
                        elem_id := Some (''uia-'' @ asset_key a),
                        placeholder := Some ''Image URL'',
                        val := Some (value_or_empty (asset_value a))\<rparr>]
      else
        [blank_element\<lparr>tagName := ''INPUT'', input_type := ''text'',
                        elem_id := Some (''uia-'' @ asset_key a),
                        val := Some (value_or_empty (asset_value a))\<rparr>])"

definition editor_elements :: "(string \<times> asset list) list \<Rightarrow> element list" where
  "editor_elements sections = concat (map (\<lambda>(s, as). concat (map asset_elements as)) sections)"

subsection \<open>Saving\<close>

definition getElementById :: "string \<Rightarrow> element list \<Rightarrow> element option" where
  "getElementById i doc = find (\<lambda>el. elem_id el = Some i) doc"

definition saveUIAsset :: "string \<Rightarrow> api_data http \<Rightarrow> stmt" where
  "saveUIAsset key resp p =
     (case getElementById (''uia-'' @ key) (document p) of
        None \<Rightarrow> (Returned, p)
      | Some input \<Rightarrow>
          try_catch
            (\<lambda>q. case adminApi_put (''/admin/ui-assets/'' @ key) (ValueBody (val input)) resp q of
                   (Inl e, q1) \<Rightarrow> (Threw e, q1)
                 | (Inr data, q1) \<Rightarrow>
                     sessionStorage_removeItem ''em_ui_config''
                       (showAdminToast ''Saved! Refresh page to see changes.'' False q1))
            (\<lambda>e q. (Normal, showAdminToast (exn_message e) True q))
            p)"

text \<open>
  \<^verbatim>\<open>saveAllUIAssets\<close>. The selector \<^verbatim>\<open>[id^="uia-"]\<close> takes every element whose id
  starts with the prefix, whatever its tag; \<^verbatim>\<open>replace\<close> removes the first occurrence of
  the prefix, \<^verbatim>\<open>includes\<close> looks for a substring.
\<close>

definition starts_with :: "string \<Rightarrow> string \<Rightarrow> bool" where
  "starts_with s pre = (take (length pre) s = pre)"

fun str_includes :: "string \<Rightarrow> string \<Rightarrow> bool" where
  "str_includes [] pat = (pat = [])"
| "str_includes (c # cs) pat = (starts_with (c # cs) pat \<or> str_includes cs pat)"

fun replace_first :: "string \<Rightarrow> string \<Rightarrow> string \<Rightarrow> string" where
  "replace_first pat rep [] = (if pat = [] then rep else [])"
| "replace_first pat rep (c # cs) =
     (if starts_with (c # cs) pat then rep @ drop (length pat) (c # cs)
      else c # replace_first pat rep cs)"

definition querySelectorAll_id_prefix :: "string \<Rightarrow> element list \<Rightarrow> element list" where
  "querySelectorAll_id_prefix pre doc =
     filter (\<lambda>el. case elem_id el of None \<Rightarrow> False | Some i \<Rightarrow> starts_with i pre) doc"

fun collect_updates ::
  "element list \<Rightarrow> (string \<times> string option) list \<Rightarrow> (string \<times> string option) list" where
  "collect_updates [] updates = updates"
| "collect_updates (input # inputs) updates =
     collect_updates inputs
       (case elem_id input of
          None \<Rightarrow> updates
        | Some i \<Rightarrow>
            (let key = replace_first ''uia-'' [] i in
             if \<not> str_includes key ''preview'' then updates @ [(key, val input)] else updates))"

fun show_nat :: "nat \<Rightarrow> string" where
  "show_nat n =
     (if n < 10 then [''0123456789'' ! n]
      else show_nat (n div 10) @ [''0123456789'' ! (n mod 10)])"

definition saveAllUIAssets :: "api_data http \<Rightarrow> stmt" where
  "saveAllUIAssets resp p =
     (let inputs = querySelectorAll_id_prefix ''uia-'' (document p);
          updates = collect_updates inputs []
      in try_catch
           (\<lambda>q. case adminApi_put ''/admin/ui-assets'' (UpdatesBody updates) resp q of
                  (Inl e, q1) \<Rightarrow> (Threw e, q1)
                | (Inr data, q1) \<Rightarrow>
                    sessionStorage_removeItem ''em_ui_config''
                      (showAdminToast (''Saved '' @ show_nat (length updates) @
                                       '' UI assets! Refresh page to see changes.'') False q1))
           (\<lambda>e q. (Normal, showAdminToast (exn_message e) True q))
           p)"

section \<open>Notions of the specification\<close>

text \<open>
  The specification's \<^verbatim>\<open>get()\<close> of the Config Cache, written from its words: the cached
  snapshot if an entry is present and \<open>now - fetched_at < TTL\<close> with a TTL of 60 000 ms,
  absent otherwise. It is compared below with what \<^verbatim>\<open>loadUIConfig\<close> does.
\<close>

definition Cache_get :: "int \<Rightarrow> storage \<Rightarrow> config option" where
  "Cache_get now st =
     (case st of
        Disabled \<Rightarrow> None
      | Enabled full items \<Rightarrow>
          (case items ''em_ui_config'' of
             Some (CacheRecord fetched_at snapshot) \<Rightarrow>
               if now - fetched_at < 60000 then Some snapshot else None
           | _ \<Rightarrow> None))"

text \<open>The effects a call adds to the trace, and what they are.\<close>

definition effects_of :: "page \<Rightarrow> page \<Rightarrow> effect list" where
  "effects_of p p' = drop (length (trace p)) (trace p')"

fun is_storage_get :: "effect \<Rightarrow> bool" where
  "is_storage_get (StorageGet k) = True"
| "is_storage_get _ = False"

fun is_storage_set :: "effect \<Rightarrow> bool" where
  "is_storage_set (StorageSet k v) = True"
| "is_storage_set _ = False"

fun is_storage_remove :: "effect \<Rightarrow> bool" where
  "is_storage_remove (StorageRemove k) = True"
| "is_storage_remove _ = False"

fun is_fetch :: "effect \<Rightarrow> bool" where
  "is_fetch (Fetch u) = True"
| "is_fetch _ = False"

fun is_apply :: "effect \<Rightarrow> bool" where
  "is_apply (Apply c) = True"
| "is_apply _ = False"

fun is_success_toast :: "effect \<Rightarrow> bool" where
  "is_success_toast (Toast m isError) = (\<not> isError)"
| "is_success_toast _ = False"

fun is_failure_toast :: "effect \<Rightarrow> bool" where
  "is_failure_toast (Toast m isError) = isError"
| "is_failure_toast _ = False"

text \<open>The effects of one call of \<^verbatim>\<open>loadUIConfig\<close>, on each of its paths.\<close>

definition load_effects :: "int \<Rightarrow> int \<Rightarrow> config http \<Rightarrow> page \<Rightarrow> effect list" where
  "load_effects now now' resp p =
     (case Cache_get now (sessionStorage p) of
        Some d \<Rightarrow> [StorageGet CACHE_KEY, Apply d, Dispatch ''uiConfigLoaded'' d]
      | None \<Rightarrow>
          [StorageGet CACHE_KEY, Fetch ''/api/ui-config''] @
          (case resp of
             NetworkFailure m \<Rightarrow> [Warn (''[UI Config] Could not load dynamic config: '' @ m)]
           | Response ok b \<Rightarrow>
               if \<not> ok then []
               else (case b of
                       None \<Rightarrow> [Warn (''[UI Config] Could not load dynamic config: ''
                                         @ exn_message SyntaxError)]
                     | Some config \<Rightarrow>
                         [StorageSet CACHE_KEY (JSON_stringify now' config), Apply config,
                          Dispatch ''uiConfigLoaded'' config])))"

text \<open>
  \<open>before P Q xs\<close>: every element of \<open>xs\<close> that satisfies \<open>Q\<close> comes strictly after
  one that satisfies \<open>P\<close>.
\<close>

fun before :: "('a \<Rightarrow> bool) \<Rightarrow> ('a \<Rightarrow> bool) \<Rightarrow> 'a list \<Rightarrow> bool" where
  "before P Q [] = True"
| "before P Q (x # xs) = (\<not> Q x \<and> (P x \<or> before P Q xs))"

text \<open>
  The application mode of a Display Target. The source has no such field: the mode is
  what the tag, the input type and the \<^verbatim>\<open>data-ui-target\<close> attribute of the element
  make it.
\<close>

datatype application_mode = image | placeholder_mode | raw_html | text_mode

definition mode_of :: "element \<Rightarrow> application_mode" where
  "mode_of el =
     (if tagName el = ''IMG'' then image
      else if tagName el = ''INPUT'' \<and> input_type el \<noteq> ''submit'' then placeholder_mode
      else if ui_target el = Some ''html'' then raw_html
      else text_mode)"

text \<open>
  A write to the Store succeeds when \<^verbatim>\<open>adminApi.put\<close> returns: the response is
  \<^verbatim>\<open>ok\<close> and its body is JSON. Every other response makes \<^verbatim>\<open>adminApi.put\<close> throw,
  which is what the save functions take for a failed write.
\<close>

fun request_succeeds :: "'a http \<Rightarrow> bool" where
  "request_succeeds (Response ok (Some data)) = ok"
| "request_succeeds _ = False"

text \<open>The elements of a list in the order of their first occurrence.\<close>

fun first_occurrences :: "'a list \<Rightarrow> 'a list" where
  "first_occurrences [] = []"
| "first_occurrences (x # xs) = x # filter (\<lambda>y. y \<noteq> x) (first_occurrences xs)"

text \<open>What grouping makes of a list of assets when no section is an inherited name.\<close>

definition grouped_of :: "asset list \<Rightarrow> grouped" where
  "grouped_of as =
     map (\<lambda>s. (s, filter (\<lambda>a. asset_section a = s) as))
         (first_occurrences (map asset_section as))"

subsection \<open>Concrete pages, snapshots and assets\<close>

definition greeting_span :: element where
  "greeting_span =
     blank_element\<lparr>tagName := ''SPAN'', ui_key := Some ''greeting'', content := Text ''Welcome''\<rparr>"

definition greeting_block :: element where
  "greeting_block =
     blank_element\<lparr>ui_key := Some ''greeting'', ui_target := Some ''html''\<rparr>"

definition logo_img :: element where
  "logo_img = blank_element\<lparr>tagName := ''IMG'', ui_key := Some ''logo_url''\<rparr>"

definition search_input :: element where
  "search_input =
     blank_element\<lparr>tagName := ''INPUT'', input_type := ''text'', ui_key := Some ''search_hint''\<rparr>"

definition banner_title :: element where
  "banner_title =
     blank_element\<lparr>tagName := ''H1'', ui_key := Some ''banner_title'', content := Text ''Sale''\<rparr>"

definition toString_span :: element where
  "toString_span =
     blank_element\<lparr>tagName := ''SPAN'', ui_key := Some ''toString'', content := Text ''Welcome''\<rparr>"

definition shop_page :: page where
  "shop_page =
     \<lparr>document = [greeting_span, greeting_block, logo_img, search_input, banner_title],
      sessionStorage = Enabled False Map.empty, uiConfig = None, csrfToken = None, trace = []\<rparr>"

definition greeting_snapshot :: config where
  "greeting_snapshot = [''greeting'' \<mapsto> JString ''Hi'']"

definition markup_snapshot :: config where
  "markup_snapshot = [''greeting'' \<mapsto> JString ''<b>Hi</b>'', ''logo_url'' \<mapsto> JString ''/img/logo.png'']"

definition empty_snapshot :: config where
  "empty_snapshot = Map.empty"

definition title_asset :: asset where
  "title_asset =
     \<lparr>asset_key = ''site_title'', asset_section = ''header'', asset_label = ''Site title'',
      asset_description = None, asset_type = ''text'', asset_value = Some ''My Shop''\<rparr>"

definition footer_asset :: asset where
  "footer_asset =
     \<lparr>asset_key = ''footer_text'', asset_section = ''2'', asset_label = ''Footer'',
      asset_description = None, asset_type = ''text'', asset_value = Some ''Bye''\<rparr>"

definition logo_asset :: asset where
  "logo_asset =
     \<lparr>asset_key = ''logo_url'', asset_section = ''1'', asset_label = ''Logo'',
      asset_description = None, asset_type = ''image'', asset_value = Some ''/img/logo.png''\<rparr>"

definition tagline_asset :: asset where
  "tagline_asset =
     \<lparr>asset_key = ''tagline'', asset_section = ''header'', asset_label = ''Tagline'',
      asset_description = None, asset_type = ''text'', asset_value = None\<rparr>"

definition banner_asset :: asset where
  "banner_asset =
     \<lparr>asset_key = ''banner'', asset_section = ''home'', asset_label = ''Banner'',
      asset_description = None, asset_type = ''text'', asset_value = Some ''Sale''\<rparr>"

definition saved_response :: "api_data http" where
  "saved_response = Response True (Some \<lparr>message = None, assets = None\<rparr>)"

definition rejected_response :: "api_data http" where
  "rejected_response = Response False (Some \<lparr>message = Some ''Unknown key'', assets = None\<rparr>)"

definition editor_page :: page where
  "editor_page =
     \<lparr>document = editor_elements [(''header'', [title_asset])],
      sessionStorage = Enabled False [''em_ui_config'' \<mapsto> CacheRecord 1000 greeting_snapshot],
      uiConfig = None, csrfToken = None, trace = []\<rparr>"

section \<open>The loader and the applier\<close>

lemma cache_stmt_eq:
  "cache_stmt now p =
     (case Cache_get now (sessionStorage p) of
        Some d \<Rightarrow> (Returned, applyConfig d (emit (StorageGet CACHE_KEY) p))
      | None \<Rightarrow> (Normal, emit (StorageGet CACHE_KEY) p))"
  by (cases "sessionStorage p")
     (auto simp: cache_stmt_def try_catch_def cache_block_def Cache_get_def emit_def
        CACHE_KEY_def CACHE_TTL_def Let_def
      split: option.splits stored.splits sum.splits)

lemma fetch_stmt_eq:
  "fetch_stmt now' resp p =
     (let p1 = emit (Fetch ''/api/ui-config'') p in
      case resp of
        NetworkFailure m \<Rightarrow>
          (Normal, emit (Warn (''[UI Config] Could not load dynamic config: '' @ m)) p1)
      | Response ok b \<Rightarrow>
          if \<not> ok then (Returned, p1)
          else (case b of
                  None \<Rightarrow> (Normal, emit (Warn (''[UI Config] Could not load dynamic config: ''
                                     @ exn_message SyntaxError)) p1)
                | Some config \<Rightarrow>
                    (Normal, applyConfig config
                       (snd (try_catch (cache_put now' config) (\<lambda>e q. (Normal, q)) p1)))))"
  by (auto simp: fetch_stmt_def fetch_block_def try_catch_def js_seq_def cache_put_def Let_def
      split: http.splits option.splits sum.splits)

lemma loadUIConfig_eq:
  "loadUIConfig now now' resp p =
     (case Cache_get now (sessionStorage p) of
        Some d \<Rightarrow> (Returned, applyConfig d (emit (StorageGet CACHE_KEY) p))
      | None \<Rightarrow> fetch_stmt now' resp (emit (StorageGet CACHE_KEY) p))"
  by (simp add: loadUIConfig_def js_seq_def cache_stmt_eq split: option.splits)

lemma document_applyConfig:
  "document (applyConfig config p) = map (apply_element config) (document p)"
  by (simp add: applyConfig_def emit_def Let_def)

lemma storage_applyConfig: "sessionStorage (applyConfig config p) = sessionStorage p"
  by (simp add: applyConfig_def emit_def Let_def)

lemma uiConfig_applyConfig: "uiConfig (applyConfig config p) = Some config"
  by (simp add: applyConfig_def emit_def Let_def)

lemma trace_applyConfig:
  "trace (applyConfig config p) = trace p @ [Apply config, Dispatch ''uiConfigLoaded'' config]"
  by (simp add: applyConfig_def emit_def Let_def)

lemma emit_simps:
  "document (emit e p) = document p"
  "sessionStorage (emit e p) = sessionStorage p"
  "uiConfig (emit e p) = uiConfig p"
  "csrfToken (emit e p) = csrfToken p"
  "trace (emit e p) = trace p @ [e]"
  by (simp_all add: emit_def)

lemma put_simps:
  "document (snd (try_catch (cache_put t c) (\<lambda>e q. (Normal, q)) p)) = document p"
  "uiConfig (snd (try_catch (cache_put t c) (\<lambda>e q. (Normal, q)) p)) = uiConfig p"
  "trace (snd (try_catch (cache_put t c) (\<lambda>e q. (Normal, q)) p)) =
     trace p @ [StorageSet CACHE_KEY (JSON_stringify t c)]"
  by (auto simp: try_catch_def cache_put_def emit_def Let_def split: sum.splits)

lemma put_storage:
  "sessionStorage (snd (try_catch (cache_put t c) (\<lambda>e q. (Normal, q)) p)) =
     (case sessionStorage p of
        Disabled \<Rightarrow> Disabled
      | Enabled full items \<Rightarrow>
          if full then Enabled full items
          else Enabled full (items(CACHE_KEY \<mapsto> JSON_stringify t c)))"
  by (cases "sessionStorage p")
     (auto simp: try_catch_def cache_put_def emit_def Let_def split: sum.splits)

lemma effects_of_append: "trace p' = trace p @ new \<Longrightarrow> effects_of p p' = new"
  by (simp add: effects_of_def)

lemma trace_loadUIConfig:
  "trace (snd (loadUIConfig now now' resp p)) = trace p @ load_effects now now' resp p"
  by (simp add: loadUIConfig_eq fetch_stmt_eq load_effects_def Let_def trace_applyConfig
        emit_simps put_simps
      split: option.splits http.splits)

lemma effects_loadUIConfig:
  "loadUIConfig now now' resp p = (c, p') \<Longrightarrow> effects_of p p' = load_effects now now' resp p"
  using trace_loadUIConfig [of now now' resp p] by (simp add: effects_of_def)

lemma fetch_in_load_effects:
  "list_ex is_fetch (load_effects now now' resp p) = (Cache_get now (sessionStorage p) = None)"
  by (simp add: load_effects_def split: option.splits)

text \<open>
  Claim C1 (cache freshness). \<^verbatim>\<open>loadUIConfig\<close> serves the cached snapshot exactly when
  the specification's \<^verbatim>\<open>get()\<close> returns it, that is when an entry is present and
  \<open>now - fetched_at < 60000\<close>, and goes on to the fetch otherwise. For a snapshot the
  loader cached at time \<open>T\<close>, every load strictly before \<open>T + 60000\<close> applies that
  snapshot and returns without a fetch, and every load at or after \<open>T + 60000\<close> is a
  miss: it continues with the fetch.
\<close>

theorem cache_freshness:
  assumes "cache_put T snapshot q = (Normal, q')"
      and "sessionStorage p = sessionStorage q'"
  shows "CACHE_TTL = 60000 \<and>
         loadUIConfig now now' resp p =
           (case Cache_get now (sessionStorage p) of
              Some d \<Rightarrow> (Returned, applyConfig d (emit (StorageGet CACHE_KEY) p))
            | None \<Rightarrow> fetch_stmt now' resp (emit (StorageGet CACHE_KEY) p)) \<and>
         Cache_get now (sessionStorage p) =
           (if now < T + CACHE_TTL then Some snapshot else None) \<and>
         (now < T + CACHE_TTL \<longrightarrow>
            loadUIConfig now now' resp p =
              (Returned, applyConfig snapshot (emit (StorageGet CACHE_KEY) p))) \<and>
         (T + CACHE_TTL \<le> now \<longrightarrow>
            loadUIConfig now now' resp p = fetch_stmt now' resp (emit (StorageGet CACHE_KEY) p) \<and>
            list_ex is_fetch (effects_of p (snd (loadUIConfig now now' resp p))))"
proof -
  have ttl: "CACHE_TTL = 60000" by (simp add: CACHE_TTL_def)
  from assms(1) obtain items where
    st: "sessionStorage q' = Enabled False (items(CACHE_KEY \<mapsto> CacheRecord T snapshot))"
    by (cases "sessionStorage q")
       (auto simp: cache_put_def emit_def Let_def JSON_stringify_def split: if_splits)
  have get: "Cache_get now (sessionStorage p) =
      (if now < T + CACHE_TTL then Some snapshot else None)"
    using st assms(2) by (auto simp: Cache_get_def CACHE_KEY_def ttl)
  have fetch: "list_ex is_fetch (effects_of p (snd (loadUIConfig now now' resp p)))"
    if "T + CACHE_TTL \<le> now"
  proof -
    have "effects_of p (snd (loadUIConfig now now' resp p)) = load_effects now now' resp p"
      by (rule effects_loadUIConfig [of now now' resp p "fst (loadUIConfig now now' resp p)"])
         simp
    with that get show ?thesis by (simp add: fetch_in_load_effects)
  qed
  show ?thesis
    using ttl get fetch by (simp add: loadUIConfig_eq)
qed

theorem cache_freshness_witness:
  "cache_put 1000 greeting_snapshot shop_page =
     (Normal, snd (cache_put 1000 greeting_snapshot shop_page)) \<and>
   fst (loadUIConfig 60999 61000 (NetworkFailure ''offline'')
          (snd (cache_put 1000 greeting_snapshot shop_page))) = Returned \<and>
   content (document (snd (loadUIConfig 60999 61000 (NetworkFailure ''offline'')
          (snd (cache_put 1000 greeting_snapshot shop_page)))) ! 0) = Text ''Hi'' \<and>
   list_ex is_fetch (effects_of (snd (cache_put 1000 greeting_snapshot shop_page))
      (snd (loadUIConfig 61000 61000 (NetworkFailure ''offline'')
          (snd (cache_put 1000 greeting_snapshot shop_page)))))"
proof -
  have put: "cache_put 1000 greeting_snapshot shop_page =
      (Normal, snd (cache_put 1000 greeting_snapshot shop_page))"
    by (simp add: cache_put_def shop_page_def emit_def Let_def)
  have doc: "document (snd (cache_put 1000 greeting_snapshot shop_page)) = document shop_page"
    by (simp add: cache_put_def shop_page_def emit_def Let_def)
  note fresh = cache_freshness [OF put refl, of 60999 61000 "NetworkFailure ''offline''"]
  note stale = cache_freshness [OF put refl, of 61000 61000 "NetworkFailure ''offline''"]
  have lt: "(60999::int) < 1000 + CACHE_TTL" and le: "(1000::int) + CACHE_TTL \<le> 61000"
    by (simp_all add: CACHE_TTL_def)
  from fresh lt have hit: "loadUIConfig 60999 61000 (NetworkFailure ''offline'')
      (snd (cache_put 1000 greeting_snapshot shop_page)) =
      (Returned, applyConfig greeting_snapshot
         (emit (StorageGet CACHE_KEY) (snd (cache_put 1000 greeting_snapshot shop_page))))"
    by blast
  have applied: "content (document (applyConfig greeting_snapshot
      (emit (StorageGet CACHE_KEY) (snd (cache_put 1000 greeting_snapshot shop_page)))) ! 0) =
      Text ''Hi''"
    unfolding document_applyConfig emit_simps doc
    by (simp add: shop_page_def greeting_span_def blank_element_def apply_element_def
          js_get_def greeting_snapshot_def)
  from stale le have miss: "list_ex is_fetch
      (effects_of (snd (cache_put 1000 greeting_snapshot shop_page))
        (snd (loadUIConfig 61000 61000 (NetworkFailure ''offline'')
          (snd (cache_put 1000 greeting_snapshot shop_page)))))"
    by blast
  show ?thesis using put hit applied miss by simp
qed

text \<open>
  Claim C3 (silent read degradation). In a load that performs the fetch and whose fetch
  fails, by a network error or by a status that is not a success, \<^verbatim>\<open>applyConfig\<close> is not
  called, nothing is written to the cache, the call does not throw, and the document,
  the storage and the published configuration are what they were.
\<close>

theorem silent_read_degradation:
  assumes "resp = NetworkFailure m \<or> resp = Response False b"
      and "loadUIConfig now now' resp p = (c, p')"
      and "list_ex is_fetch (effects_of p p')"
  shows "(c = Normal \<or> c = Returned) \<and>
         document p' = document p \<and>
         sessionStorage p' = sessionStorage p \<and>
         uiConfig p' = uiConfig p \<and>
         \<not> list_ex is_apply (effects_of p p') \<and>
         \<not> list_ex is_storage_set (effects_of p p')"
proof -
  have eff: "effects_of p p' = load_effects now now' resp p"
    by (rule effects_loadUIConfig [OF assms(2)])
  with assms(3) have miss: "Cache_get now (sessionStorage p) = None"
    by (simp add: fetch_in_load_effects)
  from assms(1) show ?thesis
  proof
    assume "resp = NetworkFailure m"
    with miss assms(2) eff show ?thesis
      by (auto simp: loadUIConfig_eq fetch_stmt_eq load_effects_def Let_def emit_simps)
  next
    assume "resp = Response False b"
    with miss assms(2) eff show ?thesis
      by (auto simp: loadUIConfig_eq fetch_stmt_eq load_effects_def Let_def emit_simps)
  qed
qed

theorem silent_read_degradation_witness:
  "list_ex is_fetch (effects_of shop_page (snd (loadUIConfig 5 6 (NetworkFailure ''offline'') shop_page))) \<and>
   fst (loadUIConfig 5 6 (NetworkFailure ''offline'') shop_page) = Normal \<and>
   document (snd (loadUIConfig 5 6 (NetworkFailure ''offline'') shop_page)) = document shop_page \<and>
   list_ex is_fetch (effects_of shop_page (snd (loadUIConfig 5 6 (Response False None) shop_page))) \<and>
   fst (loadUIConfig 5 6 (Response False None) shop_page) = Returned \<and>
   document (snd (loadUIConfig 5 6 (Response False None) shop_page)) = document shop_page"
proof -
  have miss: "Cache_get 5 (sessionStorage shop_page) = None"
    by (simp add: Cache_get_def shop_page_def)
  have f1: "list_ex is_fetch
      (effects_of shop_page (snd (loadUIConfig 5 6 (NetworkFailure ''offline'') shop_page)))"
    using effects_loadUIConfig [of 5 6 "NetworkFailure ''offline''" shop_page
        "fst (loadUIConfig 5 6 (NetworkFailure ''offline'') shop_page)"
        "snd (loadUIConfig 5 6 (NetworkFailure ''offline'') shop_page)"] miss
    by (simp add: fetch_in_load_effects)
  have f2: "list_ex is_fetch
      (effects_of shop_page (snd (loadUIConfig 5 6 (Response False None) shop_page)))"
    using effects_loadUIConfig [of 5 6 "Response False None" shop_page
        "fst (loadUIConfig 5 6 (Response False None) shop_page)"
        "snd (loadUIConfig 5 6 (Response False None) shop_page)"] miss
    by (simp add: fetch_in_load_effects)
  have c1: "fst (loadUIConfig 5 6 (NetworkFailure ''offline'') shop_page) = Normal"
    using miss by (simp add: loadUIConfig_eq fetch_stmt_eq)
  have c2: "fst (loadUIConfig 5 6 (Response False None) shop_page) = Returned"
    using miss by (simp add: loadUIConfig_eq fetch_stmt_eq)
  from silent_read_degradation [of "NetworkFailure ''offline''" "''offline''" None 5 6 shop_page
      "fst (loadUIConfig 5 6 (NetworkFailure ''offline'') shop_page)"
      "snd (loadUIConfig 5 6 (NetworkFailure ''offline'') shop_page)"] f1
  have d1: "document (snd (loadUIConfig 5 6 (NetworkFailure ''offline'') shop_page)) =
      document shop_page"
    by simp
  from silent_read_degradation [of "Response False None" "''offline''" None 5 6 shop_page
      "fst (loadUIConfig 5 6 (Response False None) shop_page)"
      "snd (loadUIConfig 5 6 (Response False None) shop_page)"] f2
  have d2: "document (snd (loadUIConfig 5 6 (Response False None) shop_page)) =
      document shop_page"
    by simp
  show ?thesis using f1 f2 c1 c2 d1 d2 by simp
qed

subsection \<open>Applying a snapshot to one element\<close>

lemma js_get_absent:
  "config key = None \<Longrightarrow> key \<notin> set Object_prototype_names \<Longrightarrow> js_get config key = Undefined"
  by (simp add: js_get_def)

lemma js_get_own: "config key = Some v \<Longrightarrow> js_get config key = Own v"
  by (simp add: js_get_def)

lemma apply_element_skip:
  "ui_key el = Some key \<Longrightarrow> js_get config key = Undefined \<or> js_get config key = Own JNull \<Longrightarrow>
   apply_element config el = el"
  by (simp add: apply_element_def Let_def)

lemma apply_element_present:
  assumes "ui_key el = Some key" and "config key = Some (JString v)"
  shows "apply_element config el =
     (case mode_of el of
        image \<Rightarrow> el\<lparr>src := Some v, loading := Some ''lazy''\<rparr>
      | placeholder_mode \<Rightarrow> el\<lparr>placeholder := Some v\<rparr>
      | raw_html \<Rightarrow> el\<lparr>content := Markup v\<rparr>
      | text_mode \<Rightarrow> el\<lparr>content := Text v\<rparr>)"
  using assms by (simp add: apply_element_def js_get_def mode_of_def Let_def)

lemma apply_element_loading:
  "tagName el \<noteq> ''IMG'' \<Longrightarrow> loading (apply_element config el) = loading el"
  by (simp add: apply_element_def Let_def split: option.splits)



text \<open>
  Claim C9 (lazy loading of images). For an \<^verbatim>\<open>IMG\<close> target whose key is an own property
  of the snapshot with a string value, \<^verbatim>\<open>applyConfig\<close> sets two attributes, the source
  and \<^verbatim>\<open>loading = "lazy"\<close>, and nothing else; on an element of any other tag it leaves
  the \<^verbatim>\<open>loading\<close> attribute as it was.
\<close>

theorem image_mode_lazy_loading:
  assumes "i < length (document p)"
  shows "(tagName (document p ! i) = ''IMG'' \<and> ui_key (document p ! i) = Some key \<and>
          config key = Some (JString v) \<longrightarrow>
            document (applyConfig config p) ! i =
              (document p ! i)\<lparr>src := Some v, loading := Some ''lazy''\<rparr>) \<and>
         (tagName (document p ! i) \<noteq> ''IMG'' \<longrightarrow>
            loading (document (applyConfig config p) ! i) = loading (document p ! i))"
  using assms
  by (auto simp: document_applyConfig apply_element_present mode_of_def apply_element_loading)

theorem image_mode_lazy_loading_witness:
  "document (applyConfig markup_snapshot shop_page) ! 2 =
     logo_img\<lparr>src := Some ''/img/logo.png'', loading := Some ''lazy''\<rparr> \<and>
   loading (document (applyConfig markup_snapshot shop_page) ! 1) = None"
proof -
  have len: "2 < length (document shop_page)" "1 < length (document shop_page)"
    by (simp_all add: shop_page_def)
  have d2: "document shop_page ! 2 = logo_img" and d1: "document shop_page ! 1 = greeting_block"
    by (simp_all add: shop_page_def)
  have img: "tagName logo_img = ''IMG''" "ui_key logo_img = Some ''logo_url''"
    "markup_snapshot ''logo_url'' = Some (JString ''/img/logo.png'')"
    by (simp_all add: logo_img_def blank_element_def markup_snapshot_def)
  have blk: "tagName greeting_block \<noteq> ''IMG''" "loading greeting_block = None"
    by (simp_all add: greeting_block_def blank_element_def)
  from image_mode_lazy_loading [OF len(1), of "''logo_url''" markup_snapshot "''/img/logo.png''"]
  have r2: "document (applyConfig markup_snapshot shop_page) ! 2 =
      logo_img\<lparr>src := Some ''/img/logo.png'', loading := Some ''lazy''\<rparr>"
    unfolding d2 using img by blast
  from image_mode_lazy_loading [OF len(2), of "''logo_url''" markup_snapshot "''/img/logo.png''"]
  have r1: "loading (document (applyConfig markup_snapshot shop_page) ! 1) = None"
    unfolding d1 using blk by simp
  from r2 r1 show ?thesis by (rule conjI)
qed

text \<open>
  The guard of \<^verbatim>\<open>applyConfig\<close> skips an element when the value read for its key is
  \<^verbatim>\<open>undefined\<close> or \<^verbatim>\<open>null\<close>: that is so for a key that the snapshot holds with
  \<^verbatim>\<open>null\<close>, and for a key that the snapshot does not hold unless it is the name of a
  member of \<^verbatim>\<open>Object.prototype\<close>.
\<close>

lemma apply_element_guard:
  assumes "ui_key el = Some key"
      and "config key = None \<and> key \<notin> set Object_prototype_names \<or> config key = Some JNull"
  shows "apply_element config el = el"
proof -
  from assms(2) have "js_get config key = Undefined \<or> js_get config key = Own JNull"
    using js_get_absent js_get_own by blast
  with assms(1) show ?thesis by (rule apply_element_skip)
qed

text \<open>
  Claim C6 (missing-key fallback): a Display Target whose key is absent from the
  snapshot is left unmodified. The code breaks it where its guard is meant to enforce
  it. \<^verbatim>\<open>config[key]\<close> is read without an own-property check, so for a key that the
  snapshot does not hold but every object inherits the value is not \<^verbatim>\<open>undefined\<close> and
  the guard lets it through: the snapshot \<^verbatim>\<open>{}\<close> applied to a page whose one target is
  bound to \<^verbatim>\<open>toString\<close> replaces the target's static text \<^verbatim>\<open>Welcome\<close> by the source
  text of a native function.
\<close>

theorem applyConfig_overwrites_inherited_key:
  "ui_key toString_span = Some ''toString'' \<and>
   empty_snapshot ''toString'' = None \<and>
   content toString_span = Text ''Welcome'' \<and>
   js_get empty_snapshot ''toString'' = Inherited ''toString'' \<and>
   document (applyConfig empty_snapshot (shop_page\<lparr>document := [toString_span]\<rparr>)) =
     [toString_span\<lparr>content := Text ''function toString() { [native code] }''\<rparr>] \<and>
   document (applyConfig empty_snapshot (shop_page\<lparr>document := [toString_span]\<rparr>)) \<noteq>
     [toString_span]"
proof -
  have k: "ui_key toString_span = Some ''toString''"
    and t: "content toString_span = Text ''Welcome''"
    by (simp_all add: toString_span_def blank_element_def)
  have a: "empty_snapshot ''toString'' = None"
    by (simp add: empty_snapshot_def)
  have g: "js_get empty_snapshot ''toString'' = Inherited ''toString''"
    by (simp add: js_get_def empty_snapshot_def Object_prototype_names_def)
  have e: "apply_element empty_snapshot toString_span =
      toString_span\<lparr>content := Text ''function toString() { [native code] }''\<rparr>"
    by (simp add: apply_element_def g toString_span_def blank_element_def)
  have d: "document (applyConfig empty_snapshot (shop_page\<lparr>document := [toString_span]\<rparr>)) =
      [toString_span\<lparr>content := Text ''function toString() { [native code] }''\<rparr>]"
    by (simp add: document_applyConfig e)
  have "content (toString_span\<lparr>content := Text ''function toString() { [native code] }''\<rparr>) \<noteq>
      content toString_span"
    by (simp add: t)
  then have "toString_span\<lparr>content := Text ''function toString() { [native code] }''\<rparr> \<noteq>
      toString_span"
    by metis
  with k a t g d show ?thesis by simp
qed

subsection \<open>Storage failures and the order of the steps of one load\<close>

lemma loadUIConfig_completion:
  "fst (loadUIConfig now now' resp p) = Normal \<or> fst (loadUIConfig now now' resp p) = Returned"
  by (simp add: loadUIConfig_eq fetch_stmt_eq Let_def split: option.splits http.splits)

lemma loadUIConfig_fetched:
  assumes "Cache_get now (sessionStorage p) = None"
  shows "loadUIConfig now now' (Response True (Some config)) p =
     (Normal, applyConfig config
        (snd (try_catch (cache_put now' config) (\<lambda>e q. (Normal, q))
                (emit (Fetch ''/api/ui-config'') (emit (StorageGet CACHE_KEY) p)))))"
  using assms by (simp add: loadUIConfig_eq fetch_stmt_eq Let_def)

text \<open>
  Claim C5 (storage failures are absorbed). Whatever the state of the session storage,
  \<^verbatim>\<open>loadUIConfig\<close> does not throw. With the storage disabled, every load is a miss
  that goes on to the fetch, and a successful fetch is applied. With the storage full,
  the write of the cache record is a no-op and the fetched snapshot is applied all the
  same.
\<close>

theorem storage_failure_absorption:
  assumes "loadUIConfig now now' resp p = (c, p')"
  shows "(c = Normal \<or> c = Returned) \<and>
         (sessionStorage p = Disabled \<longrightarrow>
            list_ex is_fetch (effects_of p p') \<and> sessionStorage p' = Disabled \<and>
            (\<forall>config. resp = Response True (Some config) \<longrightarrow>
               c = Normal \<and> document p' = map (apply_element config) (document p) \<and>
               uiConfig p' = Some config)) \<and>
         (\<forall>items config.
            sessionStorage p = Enabled True items \<and> list_ex is_fetch (effects_of p p') \<and>
            resp = Response True (Some config) \<longrightarrow>
               c = Normal \<and> sessionStorage p' = sessionStorage p \<and>
               document p' = map (apply_element config) (document p) \<and>
               uiConfig p' = Some config)"
proof -
  have eff: "effects_of p p' = load_effects now now' resp p"
    by (rule effects_loadUIConfig [OF assms])
  have compl: "c = Normal \<or> c = Returned"
    using loadUIConfig_completion [of now now' resp p] assms by simp
  have disabled: "list_ex is_fetch (effects_of p p') \<and> sessionStorage p' = Disabled \<and>
      (\<forall>config. resp = Response True (Some config) \<longrightarrow>
         c = Normal \<and> document p' = map (apply_element config) (document p) \<and>
         uiConfig p' = Some config)"
    if dis: "sessionStorage p = Disabled"
  proof -
    from dis have miss: "Cache_get now (sessionStorage p) = None"
      by (simp add: Cache_get_def)
    then have f: "list_ex is_fetch (effects_of p p')"
      by (simp add: eff fetch_in_load_effects)
    have st: "sessionStorage p' = Disabled"
      using assms miss dis
      by (auto simp: loadUIConfig_eq fetch_stmt_eq Let_def emit_simps storage_applyConfig
            put_storage split: http.splits option.splits if_splits)
    have ok: "c = Normal \<and> document p' = map (apply_element config) (document p) \<and>
        uiConfig p' = Some config" if "resp = Response True (Some config)" for config
      using assms that loadUIConfig_fetched [OF miss, of now' config]
      by (auto simp: document_applyConfig uiConfig_applyConfig put_simps emit_simps)
    from f st ok show ?thesis by blast
  qed
  have full: "c = Normal \<and> sessionStorage p' = sessionStorage p \<and>
      document p' = map (apply_element config) (document p) \<and> uiConfig p' = Some config"
    if en: "sessionStorage p = Enabled True items"
      and f: "list_ex is_fetch (effects_of p p')"
      and r: "resp = Response True (Some config)" for items config
  proof -
    from f have miss: "Cache_get now (sessionStorage p) = None"
      by (simp add: eff fetch_in_load_effects)
    show ?thesis
      using assms r en loadUIConfig_fetched [OF miss, of now' config]
      by (auto simp: document_applyConfig uiConfig_applyConfig storage_applyConfig put_simps
            put_storage emit_simps)
  qed
  from compl disabled full show ?thesis by blast
qed

theorem storage_failure_absorption_witness:
  "fst (loadUIConfig 5 6 (Response True (Some greeting_snapshot))
          (shop_page\<lparr>sessionStorage := Disabled\<rparr>)) = Normal \<and>
   sessionStorage (snd (loadUIConfig 5 6 (Response True (Some greeting_snapshot))
          (shop_page\<lparr>sessionStorage := Disabled\<rparr>))) = Disabled \<and>
   document (snd (loadUIConfig 5 6 (Response True (Some greeting_snapshot))
          (shop_page\<lparr>sessionStorage := Disabled\<rparr>))) =
     map (apply_element greeting_snapshot) (document shop_page) \<and>
   list_ex is_fetch (effects_of (shop_page\<lparr>sessionStorage := Disabled\<rparr>)
      (snd (loadUIConfig 5 6 (Response True (Some greeting_snapshot))
          (shop_page\<lparr>sessionStorage := Disabled\<rparr>))))"
proof -
  have dis: "sessionStorage (shop_page\<lparr>sessionStorage := Disabled\<rparr>) = Disabled"
    and doc: "document (shop_page\<lparr>sessionStorage := Disabled\<rparr>) = document shop_page"
    by simp_all
  have run: "loadUIConfig 5 6 (Response True (Some greeting_snapshot))
      (shop_page\<lparr>sessionStorage := Disabled\<rparr>) =
      (fst (loadUIConfig 5 6 (Response True (Some greeting_snapshot))
             (shop_page\<lparr>sessionStorage := Disabled\<rparr>)),
       snd (loadUIConfig 5 6 (Response True (Some greeting_snapshot))
             (shop_page\<lparr>sessionStorage := Disabled\<rparr>)))"
    by simp
  from storage_failure_absorption [OF run] dis
  show ?thesis unfolding doc by blast
qed

text \<open>
  Claim C7 (order within one load). The effects of one call of \<^verbatim>\<open>loadUIConfig\<close> extend
  the trace; the read of the cache comes strictly before any fetch; and in a load that
  fetches, the snapshot that is applied is the one whose cache record was written
  immediately before: the effects are the read, the fetch, the write of the record and
  then the application of the same snapshot, and where the storage takes the write the
  cache holds that snapshot.
\<close>

theorem intra_load_ordering:
  assumes "loadUIConfig now now' resp p = (c, p')"
  shows "trace p' = trace p @ effects_of p p' \<and>
         before is_storage_get is_fetch (effects_of p p') \<and>
         (list_ex is_fetch (effects_of p p') \<longrightarrow>
            before is_storage_set is_apply (effects_of p p')) \<and>
         (\<forall>config. list_ex is_fetch (effects_of p p') \<and> Apply config \<in> set (effects_of p p') \<longrightarrow>
            effects_of p p' =
              [StorageGet CACHE_KEY, Fetch ''/api/ui-config'',
               StorageSet CACHE_KEY (JSON_stringify now' config), Apply config,
               Dispatch ''uiConfigLoaded'' config] \<and>
            (\<forall>items. sessionStorage p = Enabled False items \<longrightarrow>
               sessionStorage p' =
                 Enabled False (items(CACHE_KEY \<mapsto> JSON_stringify now' config))))"
proof -
  have eff: "effects_of p p' = load_effects now now' resp p"
    by (rule effects_loadUIConfig [OF assms])
  have tr: "trace p' = trace p @ effects_of p p'"
    using trace_loadUIConfig [of now now' resp p] assms by (simp add: eff)
  have b1: "before is_storage_get is_fetch (effects_of p p')"
    by (simp add: eff load_effects_def split: option.splits http.splits)
  have b2: "before is_storage_set is_apply (effects_of p p')"
    if "list_ex is_fetch (effects_of p p')"
    using that by (simp add: eff load_effects_def split: option.splits http.splits)
  have shape: "effects_of p p' =
        [StorageGet CACHE_KEY, Fetch ''/api/ui-config'',
         StorageSet CACHE_KEY (JSON_stringify now' config), Apply config,
         Dispatch ''uiConfigLoaded'' config] \<and>
      (\<forall>items. sessionStorage p = Enabled False items \<longrightarrow>
         sessionStorage p' = Enabled False (items(CACHE_KEY \<mapsto> JSON_stringify now' config)))"
    if f: "list_ex is_fetch (effects_of p p')" and a: "Apply config \<in> set (effects_of p p')"
    for config
  proof -
    from f have miss: "Cache_get now (sessionStorage p) = None"
      by (simp add: eff fetch_in_load_effects)
    from a miss have r: "resp = Response True (Some config)"
      by (auto simp: eff load_effects_def split: http.splits option.splits if_splits)
    from miss r have e: "effects_of p p' =
        [StorageGet CACHE_KEY, Fetch ''/api/ui-config'',
         StorageSet CACHE_KEY (JSON_stringify now' config), Apply config,
         Dispatch ''uiConfigLoaded'' config]"
      by (simp add: eff load_effects_def)
    have "sessionStorage p' = Enabled False (items(CACHE_KEY \<mapsto> JSON_stringify now' config))"
      if "sessionStorage p = Enabled False items" for items
      using assms r that loadUIConfig_fetched [OF miss, of now' config]
      by (auto simp: storage_applyConfig put_storage emit_simps)
    with e show ?thesis by blast
  qed
  from tr b1 b2 shape show ?thesis by blast
qed

theorem intra_load_ordering_witness:
  "effects_of shop_page (snd (loadUIConfig 5 6 (Response True (Some greeting_snapshot)) shop_page)) =
     [StorageGet CACHE_KEY, Fetch ''/api/ui-config'',
      StorageSet CACHE_KEY (JSON_stringify 6 greeting_snapshot), Apply greeting_snapshot,
      Dispatch ''uiConfigLoaded'' greeting_snapshot] \<and>
   before is_storage_get is_fetch
     (effects_of shop_page
        (snd (loadUIConfig 5 6 (Response True (Some greeting_snapshot)) shop_page))) \<and>
   before is_storage_set is_apply
     (effects_of shop_page
        (snd (loadUIConfig 5 6 (Response True (Some greeting_snapshot)) shop_page)))"
proof -
  have miss: "Cache_get 5 (sessionStorage shop_page) = None"
    by (simp add: Cache_get_def shop_page_def)
  have run: "loadUIConfig 5 6 (Response True (Some greeting_snapshot)) shop_page =
      (fst (loadUIConfig 5 6 (Response True (Some greeting_snapshot)) shop_page),
       snd (loadUIConfig 5 6 (Response True (Some greeting_snapshot)) shop_page))"
    by simp
  have e: "effects_of shop_page
      (snd (loadUIConfig 5 6 (Response True (Some greeting_snapshot)) shop_page)) =
     [StorageGet CACHE_KEY, Fetch ''/api/ui-config'',
      StorageSet CACHE_KEY (JSON_stringify 6 greeting_snapshot), Apply greeting_snapshot,
      Dispatch ''uiConfigLoaded'' greeting_snapshot]"
    using effects_loadUIConfig [OF run] miss by (simp add: load_effects_def)
  then have f: "list_ex is_fetch (effects_of shop_page
      (snd (loadUIConfig 5 6 (Response True (Some greeting_snapshot)) shop_page)))"
    by simp
  from intra_load_ordering [OF run] f e show ?thesis by blast
qed

section \<open>The admin editor: saving\<close>

lemma adminApi_put_succeeds:
  "request_succeeds resp \<Longrightarrow>
   \<exists>data. adminApi_put url b resp p =
     (Inr data, emit (Request ''PUT'' url (Some b) (csrf_of p)) p)"
  by (cases resp rule: request_succeeds.cases)
     (auto simp: adminApi_put_def adminApi_request_def Let_def)

lemma adminApi_put_fails:
  "\<not> request_succeeds resp \<Longrightarrow>
   \<exists>e. adminApi_put url b resp p =
     (Inl e, emit (Request ''PUT'' url (Some b) (csrf_of p)) p)"
  by (cases resp rule: request_succeeds.cases)
     (auto simp: adminApi_put_def adminApi_request_def Let_def)

lemma save_try_succeeds:
  assumes "request_succeeds resp"
  shows "\<exists>p'. try_catch
            (\<lambda>q. case adminApi_put url b resp q of
                   (Inl e, q1) \<Rightarrow> (Threw e, q1)
                 | (Inr data, q1) \<Rightarrow>
                     sessionStorage_removeItem ''em_ui_config'' (showAdminToast msg False q1))
            (\<lambda>e q. (Normal, showAdminToast (exn_message e) True q)) p = (Normal, p') \<and>
          trace p' = trace p @
            [Request ''PUT'' url (Some b) (csrf_of p), Toast msg False,
             StorageRemove ''em_ui_config''] @
            (if sessionStorage p = Disabled then [Toast (exn_message SecurityError) True]
             else []) \<and>
          sessionStorage p' =
            (case sessionStorage p of
               Disabled \<Rightarrow> Disabled
             | Enabled full items \<Rightarrow> Enabled full (items(''em_ui_config'' := None))) \<and>
          document p' = document p"
proof -
  from adminApi_put_succeeds [OF assms, where url = url and b = b and p = p] obtain data where
    "adminApi_put url b resp p =
       (Inr data, emit (Request ''PUT'' url (Some b) (csrf_of p)) p)" ..
  then show ?thesis
    by (cases "sessionStorage p")
       (simp_all add: try_catch_def sessionStorage_removeItem_def showAdminToast_def emit_def
          Let_def)
qed

lemma save_try_fails:
  assumes "\<not> request_succeeds resp"
  shows "\<exists>p' e. try_catch
            (\<lambda>q. case adminApi_put url b resp q of
                   (Inl e, q1) \<Rightarrow> (Threw e, q1)
                 | (Inr data, q1) \<Rightarrow>
                     sessionStorage_removeItem ''em_ui_config'' (showAdminToast msg False q1))
            (\<lambda>e q. (Normal, showAdminToast (exn_message e) True q)) p = (Normal, p') \<and>
          trace p' = trace p @
            [Request ''PUT'' url (Some b) (csrf_of p), Toast (exn_message e) True] \<and>
          sessionStorage p' = sessionStorage p \<and>
          document p' = document p"
proof -
  from adminApi_put_fails [OF assms, where url = url and b = b and p = p] obtain e where
    "adminApi_put url b resp p =
       (Inl e, emit (Request ''PUT'' url (Some b) (csrf_of p)) p)" ..
  then show ?thesis
    by (auto simp: try_catch_def showAdminToast_def emit_def)
qed

lemma save_run:
  assumes "(getElementById (''uia-'' @ key) (document p) = Some input \<and>
            saveUIAsset key resp p = (c, p')) \<or>
           saveAllUIAssets resp p = (c, p')"
  shows "\<exists>url b msg.
           try_catch
            (\<lambda>q. case adminApi_put url b resp q of
                   (Inl e, q1) \<Rightarrow> (Threw e, q1)
                 | (Inr data, q1) \<Rightarrow>
                     sessionStorage_removeItem ''em_ui_config'' (showAdminToast msg False q1))
            (\<lambda>e q. (Normal, showAdminToast (exn_message e) True q)) p = (c, p')"
  using assms
proof
  assume "getElementById (''uia-'' @ key) (document p) = Some input \<and>
          saveUIAsset key resp p = (c, p')"
  then show ?thesis
    unfolding saveUIAsset_def by (elim conjE, simp only: option.case, blast)
next
  assume "saveAllUIAssets resp p = (c, p')"
  then show ?thesis unfolding saveAllUIAssets_def Let_def by blast
qed

lemma Cache_get_removed:
  "Cache_get now (case st of Disabled \<Rightarrow> Disabled
                  | Enabled full items \<Rightarrow> Enabled full (items(''em_ui_config'' := None))) = None"
  by (cases st) (simp_all add: Cache_get_def)

text \<open>
  Claim C2 (the save and invalidate contract). A call of \<^verbatim>\<open>saveUIAsset\<close> that finds its
  input, or a call of \<^verbatim>\<open>saveAllUIAssets\<close>, sends one write. When the write succeeds, a
  success notification is shown and \<^verbatim>\<open>removeItem\<close> is called on the cache key exactly
  once; storage that is enabled no longer holds the record, no later read of the cache
  returns a snapshot, and every later load on that storage goes on to the fetch. (With
  the storage disabled the call of \<^verbatim>\<open>removeItem\<close> throws and a failure notification
  follows the success notification; the cache cannot be read either.) When the write
  fails, a failure notification is shown, no success notification, \<^verbatim>\<open>removeItem\<close> is
  not called and the storage is what it was.
\<close>

theorem save_invalidate_contract:
  assumes "(getElementById (''uia-'' @ key) (document p) = Some input \<and>
            saveUIAsset key resp p = (c, p')) \<or>
           saveAllUIAssets resp p = (c, p')"
  shows "if request_succeeds resp then
           list_ex is_success_toast (effects_of p p') \<and>
           filter is_storage_remove (effects_of p p') = [StorageRemove CACHE_KEY] \<and>
           (\<forall>full items. sessionStorage p = Enabled full items \<longrightarrow>
              sessionStorage p' = Enabled full (items(CACHE_KEY := None))) \<and>
           (\<forall>now. Cache_get now (sessionStorage p') = None) \<and>
           (\<forall>now now' r q. sessionStorage q = sessionStorage p' \<longrightarrow>
              loadUIConfig now now' r q = fetch_stmt now' r (emit (StorageGet CACHE_KEY) q))
         else
           list_ex is_failure_toast (effects_of p p') \<and>
           \<not> list_ex is_success_toast (effects_of p p') \<and>
           \<not> list_ex is_storage_remove (effects_of p p') \<and>
           sessionStorage p' = sessionStorage p"
proof (cases "request_succeeds resp")
  case True
  from save_run [OF assms] obtain url b msg where
    run: "try_catch
            (\<lambda>q. case adminApi_put url b resp q of
                   (Inl e, q1) \<Rightarrow> (Threw e, q1)
                 | (Inr data, q1) \<Rightarrow>
                     sessionStorage_removeItem ''em_ui_config'' (showAdminToast msg False q1))
            (\<lambda>e q. (Normal, showAdminToast (exn_message e) True q)) p = (c, p')"
    by blast
  from save_try_succeeds [OF True, where url = url and b = b and msg = msg and p = p] run
  have tr: "trace p' = trace p @
            [Request ''PUT'' url (Some b) (csrf_of p), Toast msg False,
             StorageRemove ''em_ui_config''] @
            (if sessionStorage p = Disabled then [Toast (exn_message SecurityError) True]
             else [])"
    and st: "sessionStorage p' =
            (case sessionStorage p of
               Disabled \<Rightarrow> Disabled
             | Enabled full items \<Rightarrow> Enabled full (items(''em_ui_config'' := None)))"
    by auto
  have eff: "effects_of p p' =
            [Request ''PUT'' url (Some b) (csrf_of p), Toast msg False,
             StorageRemove ''em_ui_config''] @
            (if sessionStorage p = Disabled then [Toast (exn_message SecurityError) True]
             else [])"
    by (rule effects_of_append [OF tr])
  have get: "Cache_get now (sessionStorage p') = None" for now
    unfolding st by (rule Cache_get_removed)
  have load: "loadUIConfig now now' r q = fetch_stmt now' r (emit (StorageGet CACHE_KEY) q)"
    if "sessionStorage q = sessionStorage p'" for now now' r q
    using that get [of now] by (simp add: loadUIConfig_eq)
  have a: "list_ex is_success_toast (effects_of p p')"
    and b: "filter is_storage_remove (effects_of p p') = [StorageRemove CACHE_KEY]"
    by (simp_all add: eff CACHE_KEY_def)
  have c: "sessionStorage p' = Enabled full (items(CACHE_KEY := None))"
    if "sessionStorage p = Enabled full items" for full items
    using that by (simp add: st CACHE_KEY_def)
  from True a b c get load show ?thesis by simp
next
  case False
  from save_run [OF assms] obtain url b msg where
    run: "try_catch
            (\<lambda>q. case adminApi_put url b resp q of
                   (Inl e, q1) \<Rightarrow> (Threw e, q1)
                 | (Inr data, q1) \<Rightarrow>
                     sessionStorage_removeItem ''em_ui_config'' (showAdminToast msg False q1))
            (\<lambda>e q. (Normal, showAdminToast (exn_message e) True q)) p = (c, p')"
    by blast
  from save_try_fails [OF False, where url = url and b = b and msg = msg and p = p] run obtain e where
    tr: "trace p' = trace p @
            [Request ''PUT'' url (Some b) (csrf_of p), Toast (exn_message e) True]"
    and st: "sessionStorage p' = sessionStorage p"
    by auto
  have eff: "effects_of p p' =
      [Request ''PUT'' url (Some b) (csrf_of p), Toast (exn_message e) True]"
    by (rule effects_of_append [OF tr])
  from False st show ?thesis by (simp add: eff)
qed

theorem save_invalidate_contract_witness:
  "getElementById (''uia-'' @ ''site_title'') (document editor_page) =
     Some (blank_element\<lparr>tagName := ''INPUT'', input_type := ''text'',
             elem_id := Some ''uia-site_title'', val := Some ''My Shop''\<rparr>) \<and>
   request_succeeds saved_response \<and>
   Cache_get 1001 (sessionStorage editor_page) = Some greeting_snapshot \<and>
   Cache_get 1001 (sessionStorage (snd (saveUIAsset ''site_title'' saved_response editor_page))) =
     None \<and>
   filter is_storage_remove
     (effects_of editor_page (snd (saveUIAsset ''site_title'' saved_response editor_page))) =
     [StorageRemove CACHE_KEY] \<and>
   \<not> request_succeeds rejected_response \<and>
   sessionStorage (snd (saveAllUIAssets rejected_response editor_page)) =
     sessionStorage editor_page \<and>
   list_ex is_failure_toast
     (effects_of editor_page (snd (saveAllUIAssets rejected_response editor_page)))"
proof -
  have input: "getElementById (''uia-'' @ ''site_title'') (document editor_page) =
      Some (blank_element\<lparr>tagName := ''INPUT'', input_type := ''text'',
              elem_id := Some ''uia-site_title'', val := Some ''My Shop''\<rparr>)"
    by (simp add: getElementById_def editor_page_def editor_elements_def asset_elements_def
          title_asset_def blank_element_def value_or_empty_def)
  have ok: "request_succeeds saved_response" and ko: "\<not> request_succeeds rejected_response"
    by (simp_all add: saved_response_def rejected_response_def)
  have cached: "Cache_get 1001 (sessionStorage editor_page) = Some greeting_snapshot"
    by (simp add: Cache_get_def editor_page_def)
  have run1: "getElementById (''uia-'' @ ''site_title'') (document editor_page) =
        Some (blank_element\<lparr>tagName := ''INPUT'', input_type := ''text'',
                elem_id := Some ''uia-site_title'', val := Some ''My Shop''\<rparr>) \<and>
      saveUIAsset ''site_title'' saved_response editor_page =
        (fst (saveUIAsset ''site_title'' saved_response editor_page),
         snd (saveUIAsset ''site_title'' saved_response editor_page)) \<or>
      saveAllUIAssets saved_response editor_page =
        (fst (saveUIAsset ''site_title'' saved_response editor_page),
         snd (saveUIAsset ''site_title'' saved_response editor_page))"
    using input by simp
  have run2: "getElementById (''uia-'' @ ''site_title'') (document editor_page) =
        Some (blank_element\<lparr>tagName := ''INPUT'', input_type := ''text'',
                elem_id := Some ''uia-site_title'', val := Some ''My Shop''\<rparr>) \<and>
      saveUIAsset ''site_title'' rejected_response editor_page =
        (fst (saveAllUIAssets rejected_response editor_page),
         snd (saveAllUIAssets rejected_response editor_page)) \<or>
      saveAllUIAssets rejected_response editor_page =
        (fst (saveAllUIAssets rejected_response editor_page),
         snd (saveAllUIAssets rejected_response editor_page))"
    by simp
  from save_invalidate_contract [OF run1] ok
  have s1: "Cache_get 1001
        (sessionStorage (snd (saveUIAsset ''site_title'' saved_response editor_page))) = None"
    and s2: "filter is_storage_remove
        (effects_of editor_page (snd (saveUIAsset ''site_title'' saved_response editor_page))) =
        [StorageRemove CACHE_KEY]"
    by simp_all
  from save_invalidate_contract [OF run2] ko
  have f1: "sessionStorage (snd (saveAllUIAssets rejected_response editor_page)) =
        sessionStorage editor_page"
    and f2: "list_ex is_failure_toast
        (effects_of editor_page (snd (saveAllUIAssets rejected_response editor_page)))"
    by simp_all
  from input ok cached s1 s2 ko f1 f2 show ?thesis by blast
qed

section \<open>The admin editor: grouping by section\<close>

lemma set_first_occurrences: "set (first_occurrences xs) = set xs"
  by (induction xs) auto

lemma first_occurrences_snoc:
  "first_occurrences (xs @ [x]) =
     (if x \<in> set xs then first_occurrences xs else first_occurrences xs @ [x])"
  by (induction xs) (auto simp: set_first_occurrences)

lemma map_fst_grouped_of:
  "map fst (grouped_of as) = first_occurrences (map asset_section as)"
  by (simp add: grouped_of_def comp_def)

lemma map_of_tabulate:
  "map_of (map (\<lambda>k. (k, f k)) ks) k = (if k \<in> set ks then Some (f k) else None)"
  by (induction ks) auto

lemma map_of_grouped_of:
  "map_of (grouped_of as) s =
     (if s \<in> asset_section ` set as then Some (filter (\<lambda>a. asset_section a = s) as) else None)"
  by (simp add: grouped_of_def map_of_tabulate set_first_occurrences)

lemma grouped_of_snoc_old:
  assumes "asset_section a \<in> asset_section ` set as"
  shows "grouped_of (as @ [a]) = push_asset (asset_section a) a (grouped_of as)"
  using assms
  by (auto simp: grouped_of_def push_asset_def first_occurrences_snoc)

lemma grouped_of_snoc_new:
  assumes "asset_section a \<notin> asset_section ` set as"
  shows "grouped_of (as @ [a]) =
     push_asset (asset_section a) a (grouped_of as @ [(asset_section a, [])])"
proof -
  from assms have ne: "\<forall>b \<in> set as. asset_section b \<noteq> asset_section a"
    by (metis imageI)
  then have "filter (\<lambda>b. asset_section b = asset_section a) as = []"
    by (simp add: filter_empty_conv)
  moreover from ne have
    "\<forall>s \<in> set (first_occurrences (map asset_section as)). s \<noteq> asset_section a"
    by (auto simp: set_first_occurrences)
  ultimately show ?thesis
    using assms
    by (auto simp: grouped_of_def push_asset_def first_occurrences_snoc)
qed

lemma group_step_grouped_of:
  assumes "asset_section a \<notin> set Object_prototype_names"
  shows "group_step a (grouped_of as) = Inr (grouped_of (as @ [a]))"
proof (cases "asset_section a \<in> asset_section ` set as")
  case True
  then show ?thesis
    by (simp add: group_step_def map_of_grouped_of grouped_of_snoc_old)
next
  case False
  then show ?thesis
    using assms
    by (simp add: group_step_def map_of_grouped_of grouped_of_snoc_new Let_def map_add_def)
qed

lemma group_assets_grouped_of:
  assumes "\<forall>a \<in> set as. asset_section a \<notin> set Object_prototype_names"
  shows "group_assets as (grouped_of done) = Inr (grouped_of (done @ as))"
  using assms
proof (induction as arbitrary: "done")
  case Nil
  then show ?case by simp
next
  case (Cons a as)
  from Cons.prems have "group_step a (grouped_of done) = Inr (grouped_of (done @ [a]))"
    by (simp add: group_step_grouped_of)
  moreover from Cons.prems have
    "group_assets as (grouped_of (done @ [a])) = Inr (grouped_of ((done @ [a]) @ as))"
    by (intro Cons.IH) simp
  ultimately show ?case by simp
qed

lemma set_OwnPropertyKeys: "set (OwnPropertyKeys obj) = fst ` set obj"
  by (auto simp: OwnPropertyKeys_def Let_def)

lemma concat_lookup:
  assumes "\<forall>k \<in> set ks. map_of obj k = Some (f k)"
  shows "concat (map (\<lambda>k. case map_of obj k of None \<Rightarrow> [] | Some arr \<Rightarrow> [(k, arr)]) ks) =
         map (\<lambda>k. (k, f k)) ks"
  using assms by (induction ks) auto

lemma Object_entries_grouped_of:
  "Object_entries (grouped_of as) =
     map (\<lambda>s. (s, filter (\<lambda>a. asset_section a = s) as)) (OwnPropertyKeys (grouped_of as))"
proof -
  have "set (OwnPropertyKeys (grouped_of as)) = set (map fst (grouped_of as))"
    by (simp add: set_OwnPropertyKeys)
  then have keys: "set (OwnPropertyKeys (grouped_of as)) = asset_section ` set as"
    by (simp only: map_fst_grouped_of set_first_occurrences set_map)
  have "\<forall>k \<in> set (OwnPropertyKeys (grouped_of as)).
          map_of (grouped_of as) k = Some (filter (\<lambda>a. asset_section a = k) as)"
    unfolding keys by (simp add: map_of_grouped_of)
  then show ?thesis
    unfolding Object_entries_def by (rule concat_lookup)
qed

lemma OwnPropertyKeys_grouped_of:
  "OwnPropertyKeys (grouped_of as) =
     sort_key decimal_value (filter is_array_index (first_occurrences (map asset_section as))) @
     filter (\<lambda>s. \<not> is_array_index s) (first_occurrences (map asset_section as))"
  by (simp add: OwnPropertyKeys_def map_fst_grouped_of Let_def)

lemma OwnPropertyKeys_no_index:
  assumes "\<forall>k \<in> fst ` set obj. \<not> is_array_index k"
  shows "OwnPropertyKeys obj = map fst obj"
proof -
  from assms have "filter is_array_index (map fst obj) = []"
    by (auto simp: filter_empty_conv)
  moreover from assms have "filter (\<lambda>k. \<not> is_array_index k) (map fst obj) = map fst obj"
    by (auto simp: filter_id_conv)
  ultimately show ?thesis by (simp add: OwnPropertyKeys_def)
qed

lemma grouped_empty: "grouped_of [] = []"
  by (simp add: grouped_of_def)

lemma loadAdminUIAssets_sections_ok:
  assumes "assets data = Some as"
      and "\<forall>a \<in> set as. asset_section a \<notin> set Object_prototype_names"
  shows "fst (loadAdminUIAssets_sections (Response True (Some data)) p) =
           Inr (Object_entries (grouped_of as))"
proof -
  have "group_assets as [] = Inr (grouped_of as)"
    using group_assets_grouped_of [OF assms(2), of "[]"] by (simp add: grouped_empty)
  with assms(1) show ?thesis
    by (simp add: loadAdminUIAssets_sections_def adminApi_get_def adminApi_request_def Let_def)
qed

text \<open>
  Claim C8 (order of the grouped read) does not hold as stated. The sections are visited
  in the order in which \<^verbatim>\<open>Object.entries\<close> lists the keys of a plain object, and a key
  that is an array index comes before every other key, in ascending numeric order: the
  sections \<^verbatim>\<open>"2"\<close> and \<^verbatim>\<open>"1"\<close>, first met in this order in the Store's response, are
  visited as \<^verbatim>\<open>"1"\<close>, \<^verbatim>\<open>"2"\<close>.
\<close>

theorem grouped_read_ordering_counterexample:
  "fst (loadAdminUIAssets_sections
          (Response True (Some \<lparr>message = None, assets = Some [footer_asset, logo_asset]\<rparr>))
          shop_page) =
     Inr [(''1'', [logo_asset]), (''2'', [footer_asset])] \<and>
   first_occurrences (map asset_section [footer_asset, logo_asset]) = [''2'', ''1'']"
  by (simp add: loadAdminUIAssets_sections_def adminApi_get_def adminApi_request_def Let_def
        group_step_def push_asset_def Object_entries_def OwnPropertyKeys_def
        is_array_index_def is_digit_def decimal_value_def digit_value_def
        footer_asset_def logo_asset_def Object_prototype_names_def)

text \<open>
  Claim C8 (order of the grouped read), amended. When no section name is a member of
  \<^verbatim>\<open>Object.prototype\<close>, the grouped read succeeds; within each section the assets keep
  the order of the Store's response; the sections whose names are array indices are
  visited first, in ascending numeric order, and the other sections after them in the
  order of their first occurrence in the response. When no section name is an array
  index, the sections are visited in the order of their first occurrence.
\<close>

theorem grouped_read_ordering:
  assumes "assets data = Some as"
      and "\<forall>a \<in> set as. asset_section a \<notin> set Object_prototype_names"
  shows "fst (loadAdminUIAssets_sections (Response True (Some data)) p) =
           Inr (map (\<lambda>s. (s, filter (\<lambda>a. asset_section a = s) as))
                  (sort_key decimal_value
                     (filter is_array_index (first_occurrences (map asset_section as))) @
                   filter (\<lambda>s. \<not> is_array_index s)
                     (first_occurrences (map asset_section as)))) \<and>
         ((\<forall>a \<in> set as. \<not> is_array_index (asset_section a)) \<longrightarrow>
            fst (loadAdminUIAssets_sections (Response True (Some data)) p) =
              Inr (map (\<lambda>s. (s, filter (\<lambda>a. asset_section a = s) as))
                     (first_occurrences (map asset_section as))))"
proof -
  have general: "fst (loadAdminUIAssets_sections (Response True (Some data)) p) =
      Inr (map (\<lambda>s. (s, filter (\<lambda>a. asset_section a = s) as))
             (OwnPropertyKeys (grouped_of as)))"
    using loadAdminUIAssets_sections_ok [OF assms] by (simp add: Object_entries_grouped_of)
  have plain: "OwnPropertyKeys (grouped_of as) = first_occurrences (map asset_section as)"
    if "\<forall>a \<in> set as. \<not> is_array_index (asset_section a)"
  proof -
    from that have "\<forall>k \<in> fst ` set (grouped_of as). \<not> is_array_index k"
      by (auto simp: grouped_of_def set_first_occurrences)
    then show ?thesis
      by (simp add: OwnPropertyKeys_no_index map_fst_grouped_of)
  qed
  have c1: "fst (loadAdminUIAssets_sections (Response True (Some data)) p) =
      Inr (map (\<lambda>s. (s, filter (\<lambda>a. asset_section a = s) as))
             (sort_key decimal_value
                (filter is_array_index (first_occurrences (map asset_section as))) @
              filter (\<lambda>s. \<not> is_array_index s)
                (first_occurrences (map asset_section as))))"
    using general unfolding OwnPropertyKeys_grouped_of .
  have c2: "(\<forall>a \<in> set as. \<not> is_array_index (asset_section a)) \<longrightarrow>
      fst (loadAdminUIAssets_sections (Response True (Some data)) p) =
        Inr (map (\<lambda>s. (s, filter (\<lambda>a. asset_section a = s) as))
               (first_occurrences (map asset_section as)))"
    using general plain by auto
  from c1 c2 show ?thesis by (rule conjI)
qed

theorem grouped_read_ordering_witness:
  "fst (loadAdminUIAssets_sections
          (Response True (Some \<lparr>message = None,
             assets = Some [banner_asset, footer_asset, title_asset, logo_asset, tagline_asset]\<rparr>))
          shop_page) =
     Inr [(''1'', [logo_asset]), (''2'', [footer_asset]), (''home'', [banner_asset]),
          (''header'', [title_asset, tagline_asset])] \<and>
   fst (loadAdminUIAssets_sections
          (Response True (Some \<lparr>message = None,
             assets = Some [banner_asset, title_asset, tagline_asset]\<rparr>))
          shop_page) =
     Inr [(''home'', [banner_asset]), (''header'', [title_asset, tagline_asset])]"
proof -
  have secs: "asset_section banner_asset = ''home''" "asset_section footer_asset = ''2''"
    "asset_section title_asset = ''header''" "asset_section logo_asset = ''1''"
    "asset_section tagline_asset = ''header''"
    by (simp_all add: banner_asset_def footer_asset_def title_asset_def logo_asset_def
          tagline_asset_def)
  have idx: "is_array_index ''1''" "is_array_index ''2''" "\<not> is_array_index ''home''"
    "\<not> is_array_index ''header''"
    by (simp_all add: is_array_index_def is_digit_def decimal_value_def digit_value_def)
  have dec: "decimal_value ''1'' = 1" "decimal_value ''2'' = 2"
    by (simp_all add: decimal_value_def digit_value_def)
  have proto: "''home'' \<notin> set Object_prototype_names" "''header'' \<notin> set Object_prototype_names"
    "''1'' \<notin> set Object_prototype_names" "''2'' \<notin> set Object_prototype_names"
    by (simp_all add: Object_prototype_names_def)
  have a1: "assets \<lparr>message = None,
      assets = Some [banner_asset, footer_asset, title_asset, logo_asset, tagline_asset]\<rparr> =
      Some [banner_asset, footer_asset, title_asset, logo_asset, tagline_asset]"
    and a2: "assets \<lparr>message = None, assets = Some [banner_asset, title_asset, tagline_asset]\<rparr> =
      Some [banner_asset, title_asset, tagline_asset]"
    by simp_all
  have p1: "\<forall>a \<in> set [banner_asset, footer_asset, title_asset, logo_asset, tagline_asset].
      asset_section a \<notin> set Object_prototype_names"
    and p2: "\<forall>a \<in> set [banner_asset, title_asset, tagline_asset].
      asset_section a \<notin> set Object_prototype_names"
    by (simp_all add: secs proto)
  have n2: "\<forall>a \<in> set [banner_asset, title_asset, tagline_asset].
      \<not> is_array_index (asset_section a)"
    by (simp add: secs idx)
  from grouped_read_ordering [OF a1 p1, of shop_page]
  have r1: "fst (loadAdminUIAssets_sections
          (Response True (Some \<lparr>message = None,
             assets = Some [banner_asset, footer_asset, title_asset, logo_asset, tagline_asset]\<rparr>))
          shop_page) =
     Inr [(''1'', [logo_asset]), (''2'', [footer_asset]), (''home'', [banner_asset]),
          (''header'', [title_asset, tagline_asset])]"
    by (simp add: secs idx dec)
  from grouped_read_ordering [OF a2 p2, of shop_page] n2
  have r2: "fst (loadAdminUIAssets_sections
          (Response True (Some \<lparr>message = None,
             assets = Some [banner_asset, title_asset, tagline_asset]\<rparr>))
          shop_page) =
     Inr [(''home'', [banner_asset]), (''header'', [title_asset, tagline_asset])]"
    by (simp add: secs idx)
  from r1 r2 show ?thesis by (rule conjI)
qed

section \<open>The admin editor: the batch of \<^verbatim>\<open>saveAllUIAssets\<close>\<close>

lemma collect_updates_no_preview:
  assumes "list_all (\<lambda>(key, v). \<not> str_includes key ''preview'') updates"
  shows "list_all (\<lambda>(key, v). \<not> str_includes key ''preview'') (collect_updates inputs updates)"
  using assms
proof (induction inputs arbitrary: updates)
  case Nil
  then show ?case by simp
next
  case (Cons input inputs)
  show ?case
  proof (cases "elem_id input")
    case None
    with Cons show ?thesis by simp
  next
    case (Some i)
    show ?thesis
    proof (cases "str_includes (replace_first ''uia-'' [] i) ''preview''")
      case True
      with Some Cons show ?thesis by (simp add: Let_def)
    next
      case False
      with Cons.prems have
        "list_all (\<lambda>(key, v). \<not> str_includes key ''preview'')
           (updates @ [(replace_first ''uia-'' [] i, val input)])"
        by simp
      from Cons.IH [OF this] Some False show ?thesis by (simp add: Let_def)
    qed
  qed
qed

text \<open>
  Claim C10 (the batch of \<^verbatim>\<open>saveAllUIAssets\<close>), evaluated on the editor as the script
  itself renders it for one text asset \<^verbatim>\<open>site_title\<close>: a row \<^verbatim>\<open>uia-row-site_title\<close>
  and the input \<^verbatim>\<open>uia-site_title\<close>. The selector takes the row too, since its id starts
  with \<^verbatim>\<open>uia-\<close> and holds no \<^verbatim>\<open>preview\<close>: the batch has an update for the key
  \<^verbatim>\<open>row-site_title\<close>, without a value, beside the update of the input, and the
  notification counts two assets where one input was collected.
\<close>

theorem saveAllUIAssets_collects_rows:
  "fst (loadAdminUIAssets_sections
          (Response True (Some \<lparr>message = None, assets = Some [title_asset]\<rparr>)) shop_page) =
     Inr [(''header'', [title_asset])] \<and>
   document editor_page = editor_elements [(''header'', [title_asset])] \<and>
   map tagName (document editor_page) = [''DIV'', ''INPUT''] \<and>
   map elem_id (document editor_page) = [Some ''uia-row-site_title'', Some ''uia-site_title''] \<and>
   effects_of editor_page (snd (saveAllUIAssets saved_response editor_page)) =
     [Request ''PUT'' ''/admin/ui-assets''
        (Some (UpdatesBody [(''row-site_title'', None), (''site_title'', Some ''My Shop'')]))
        None,
      Toast ''Saved 2 UI assets! Refresh page to see changes.'' False,
      StorageRemove ''em_ui_config'']"
proof -
  have sections: "fst (loadAdminUIAssets_sections
          (Response True (Some \<lparr>message = None, assets = Some [title_asset]\<rparr>)) shop_page) =
     Inr [(''header'', [title_asset])]"
    by (simp add: loadAdminUIAssets_sections_def adminApi_get_def adminApi_request_def Let_def
          group_step_def push_asset_def Object_entries_def OwnPropertyKeys_def
          is_array_index_def is_digit_def title_asset_def Object_prototype_names_def)
  have doc: "document editor_page = editor_elements [(''header'', [title_asset])]"
    by (simp add: editor_page_def)
  have tags: "map tagName (document editor_page) = [''DIV'', ''INPUT'']"
    and ids: "map elem_id (document editor_page) =
      [Some ''uia-row-site_title'', Some ''uia-site_title'']"
    by (simp_all add: editor_page_def editor_elements_def asset_elements_def title_asset_def
          blank_element_def)
  have updates: "collect_updates (querySelectorAll_id_prefix ''uia-'' (document editor_page)) [] =
      [(''row-site_title'', None), (''site_title'', Some ''My Shop'')]"
    by (simp add: editor_page_def editor_elements_def asset_elements_def title_asset_def
          blank_element_def querySelectorAll_id_prefix_def starts_with_def value_or_empty_def
          Let_def)
  have "trace (snd (saveAllUIAssets saved_response editor_page)) =
      trace editor_page @
      [Request ''PUT'' ''/admin/ui-assets''
        (Some (UpdatesBody [(''row-site_title'', None), (''site_title'', Some ''My Shop'')]))
        None,
      Toast ''Saved 2 UI assets! Refresh page to see changes.'' False,
      StorageRemove ''em_ui_config'']"
    unfolding saveAllUIAssets_def Let_def updates
    by (simp add: try_catch_def adminApi_put_def adminApi_request_def saved_response_def
          sessionStorage_removeItem_def showAdminToast_def emit_def editor_page_def Let_def
          csrf_of_def)
  then have run: "effects_of editor_page (snd (saveAllUIAssets saved_response editor_page)) =
      [Request ''PUT'' ''/admin/ui-assets''
        (Some (UpdatesBody [(''row-site_title'', None), (''site_title'', Some ''My Shop'')]))
        None,
      Toast ''Saved 2 UI assets! Refresh page to see changes.'' False,
      StorageRemove ''em_ui_config'']"
    by (rule effects_of_append)
  from sections doc tags ids run show ?thesis by blast
qed

end
